theory Spec2Isabelle
  imports Main
begin

section \<open>The help-desk script: events and response extraction\<close>

text \<open>
  The repository is one script, \<^verbatim>\<open>adk_multi_agents/main.py\<close>. It builds three agent
  objects and a runner from an agent library, sends one user message through the
  runner, and reduces the returned list of events to the string it prints
  (lines 85 to 91):
  \<^verbatim>\<open>
  response = ""
  if events and events[-1].content and events[-1].content.parts:
      for event in events:
          logger.info(f"Event: {event.author}, Actions: {event.actions}")
          response = "\n".join([p.text for p in events[-1].content.parts if p.text])
  print(response)
  \<close>
  The agents, the runner and the session service are objects of the imported library;
  the reduction above is the script's own computation, and it is what this theory
  embeds.
\<close>

subsection \<open>Data, as the script reads it\<close>

text \<open>
  The script reads \<^verbatim>\<open>text\<close> of a part, \<^verbatim>\<open>parts\<close> of a content, and \<^verbatim>\<open>author\<close>,
  \<^verbatim>\<open>actions\<close> and \<^verbatim>\<open>content\<close> of an event. Each of \<^verbatim>\<open>text\<close>, \<^verbatim>\<open>parts\<close> and
  \<^verbatim>\<open>content\<close> may be \<^verbatim>\<open>None\<close>, which is \<open>None\<close> here. The actions object is only
  formatted into a log line, so its type is a parameter.
\<close>

record part =
  part_text :: "string option"

record content =
  role :: "string option"
  parts :: "part list option"

record 'a event =
  author :: string
  actions :: 'a
  content :: "content option"

text \<open>The exceptions that the expressions of the reduction can raise.\<close>

datatype py_error = IndexError | AttributeError | TypeError

subsection \<open>Python's truth values\<close>

text \<open>
  A string is true when it is not \<^verbatim>\<open>None\<close> and not empty; so is a list. A content
  object is true whenever it is not \<^verbatim>\<open>None\<close>.
\<close>

definition truthy_str :: "string option \<Rightarrow> bool" where
  "truthy_str t = (case t of None \<Rightarrow> False | Some s \<Rightarrow> s \<noteq> [])"

definition truthy_list :: "'b list option \<Rightarrow> bool" where
  "truthy_list l = (case l of None \<Rightarrow> False | Some xs \<Rightarrow> xs \<noteq> [])"

definition truthy_obj :: "'b option \<Rightarrow> bool" where
  "truthy_obj x = (case x of None \<Rightarrow> False | Some _ \<Rightarrow> True)"

subsection \<open>The expressions of the reduction, with their failures\<close>

text \<open>\<^verbatim>\<open>events[-1]\<close>: the last element, \<^verbatim>\<open>IndexError\<close> on the empty list.\<close>

definition last_event :: "'a event list \<Rightarrow> py_error + 'a event" where
  "last_event events = (if events = [] then Inl IndexError else Inr (last events))"

text \<open>\<^verbatim>\<open>c.parts\<close> for \<^verbatim>\<open>c = e.content\<close>: \<^verbatim>\<open>AttributeError\<close> when \<^verbatim>\<open>c\<close> is \<^verbatim>\<open>None\<close>.\<close>

definition get_parts :: "content option \<Rightarrow> py_error + part list option" where
  "get_parts c = (case c of None \<Rightarrow> Inl AttributeError | Some c' \<Rightarrow> Inr (parts c'))"

text \<open>\<^verbatim>\<open>for p in ps\<close>: \<^verbatim>\<open>TypeError\<close> when \<^verbatim>\<open>ps\<close> is \<^verbatim>\<open>None\<close>.\<close>

definition iter_parts :: "part list option \<Rightarrow> py_error + part list" where
  "iter_parts ps = (case ps of None \<Rightarrow> Inl TypeError | Some xs \<Rightarrow> Inr xs)"

text \<open>\<^verbatim>\<open>[p.text for p in ps if p.text]\<close>.\<close>

definition texts :: "part list \<Rightarrow> string list" where
  "texts ps = [the (part_text p). p \<leftarrow> ps, truthy_str (part_text p)]"

text \<open>\<^verbatim>\<open>sep.join(xs)\<close>.\<close>

fun join :: "string \<Rightarrow> string list \<Rightarrow> string" where
  "join sep [] = []"
| "join sep [x] = x"
| "join sep (x # y # ys) = x @ sep @ join sep (y # ys)"

definition newline :: string where
  "newline = [CHR 0x0A]"

text \<open>
  \<^verbatim>\<open>"\n".join([p.text for p in events[-1].content.parts if p.text])\<close>, evaluated left
  to right; the first failure is the result.
\<close>

definition joined_last :: "'a event list \<Rightarrow> py_error + string" where
  "joined_last events =
     (case last_event events of
        Inl err \<Rightarrow> Inl err
      | Inr e \<Rightarrow>
          (case get_parts (content e) of
             Inl err \<Rightarrow> Inl err
           | Inr ps \<Rightarrow>
               (case iter_parts ps of
                  Inl err \<Rightarrow> Inl err
                | Inr xs \<Rightarrow> Inr (join newline (texts xs)))))"

subsection \<open>The guard and the loop\<close>

text \<open>
  \<^verbatim>\<open>events and events[-1].content and events[-1].content.parts\<close>: \<^verbatim>\<open>and\<close> evaluates
  its right operand only when the left one is true.
\<close>

definition guard :: "'a event list \<Rightarrow> py_error + bool" where
  "guard events =
     (if events = [] then Inr False
      else
        (case last_event events of
           Inl err \<Rightarrow> Inl err
         | Inr e \<Rightarrow>
             if \<not> truthy_obj (content e) then Inr False
             else
               (case last_event events of
                  Inl err \<Rightarrow> Inl err
                | Inr e' \<Rightarrow>
                    (case get_parts (content e') of
                       Inl err \<Rightarrow> Inl err
                     | Inr ps \<Rightarrow> Inr (truthy_list ps)))))"

text \<open>
  The state of the loop: the lines logged so far, each the pair of values that the
  log line formats, and the variable \<^verbatim>\<open>response\<close>.
\<close>

record 'a vars =
  logged :: "(string \<times> 'a) list"
  response :: string

text \<open>One pass of the loop body for the event \<open>ev\<close>.\<close>

definition body :: "'a event list \<Rightarrow> 'a event \<Rightarrow> 'a vars \<Rightarrow> py_error + 'a vars" where
  "body events ev st =
     (let st' = st\<lparr>logged := logged st @ [(author ev, actions ev)]\<rparr>
      in case joined_last events of
           Inl err \<Rightarrow> Inl err
         | Inr s \<Rightarrow> Inr (st'\<lparr>response := s\<rparr>))"

text \<open>\<^verbatim>\<open>for event in todo\<close>, stopping at the first failure.\<close>

fun loop :: "'a event list \<Rightarrow> 'a event list \<Rightarrow> 'a vars \<Rightarrow> py_error + 'a vars" where
  "loop events [] st = Inr st"
| "loop events (ev # todo) st =
     (case body events ev st of
        Inl err \<Rightarrow> Inl err
      | Inr st' \<Rightarrow> loop events todo st')"

text \<open>Lines 85 to 89: the variables when the script reaches \<^verbatim>\<open>print\<close>.\<close>

definition process_events :: "'a event list \<Rightarrow> py_error + 'a vars" where
  "process_events events =
     (let st = \<lparr>logged = [], response = []\<rparr>
      in case guard events of
           Inl err \<Rightarrow> Inl err
         | Inr b \<Rightarrow> if b then loop events events st else Inr st)"

text \<open>Line 91: what the script prints.\<close>

definition printed :: "'a event list \<Rightarrow> py_error + string" where
  "printed events =
     (case process_events events of
        Inl err \<Rightarrow> Inl err
      | Inr st \<Rightarrow> Inr (response st))"

subsection \<open>Vocabulary of the properties\<close>

text \<open>
  The parts of an event's content: \<open>None\<close> when the event has no content or the
  content has no list of parts.
\<close>

definition content_parts :: "'a event \<Rightarrow> part list option" where
  "content_parts e = (case content e of None \<Rightarrow> None | Some c \<Rightarrow> parts c)"

text \<open>A part carries text when its text is neither \<^verbatim>\<open>None\<close> nor the empty string.\<close>

definition textual :: "part \<Rightarrow> bool" where
  "textual p = (part_text p \<noteq> None \<and> part_text p \<noteq> Some [])"

text \<open>The text parts of an event, in order.\<close>

definition text_parts :: "'a event \<Rightarrow> part list" where
  "text_parts e =
     (case content_parts e of
        None \<Rightarrow> []
      | Some ps \<Rightarrow> filter textual ps)"

subsection \<open>Sample events\<close>

text \<open>
  Events of the kind one run of the help desk returns: the coordinator hands the
  request over in an event without text, and the specialist answers.
\<close>

definition user_event :: "unit event" where
  "user_event =
     \<lparr>author = ''user'', actions = (),
      content = Some \<lparr>role = Some ''user'',
                       parts = Some [\<lparr>part_text = Some ''I cannot log in''\<rparr>]\<rparr>\<rparr>"

definition transfer_event :: "unit event" where
  "transfer_event =
     \<lparr>author = ''HelpDeskCoordinator'', actions = (),
      content = Some \<lparr>role = Some ''model'', parts = Some [\<lparr>part_text = None\<rparr>]\<rparr>\<rparr>"

definition support_event :: "unit event" where
  "support_event =
     \<lparr>author = ''Support'', actions = (),
      content = Some \<lparr>role = Some ''model'',
                       parts = Some [\<lparr>part_text = Some ''Reset it''\<rparr>,
                                     \<lparr>part_text = None\<rparr>,
                                     \<lparr>part_text = Some []\<rparr>,
                                     \<lparr>part_text = Some ''Then retry''\<rparr>]\<rparr>\<rparr>"

definition bare_event :: "unit event" where
  "bare_event = \<lparr>author = ''Support'', actions = (), content = None\<rparr>"

definition hollow_event :: "unit event" where
  "hollow_event =
     \<lparr>author = ''Support'', actions = (),
      content = Some \<lparr>role = Some ''model'', parts = None\<rparr>\<rparr>"

section \<open>Properties of the response extraction\<close>

subsection \<open>What each step computes\<close>

lemma texts_filter: "texts ps = map (\<lambda>p. the (part_text p)) (filter textual ps)"
  by (induction ps) (auto simp: texts_def truthy_str_def textual_def split: option.splits)

lemma joined_last_eq:
  "events \<noteq> [] \<Longrightarrow>
   joined_last events =
     (case content (last events) of
        None \<Rightarrow> Inl AttributeError
      | Some c \<Rightarrow>
          (case parts c of
             None \<Rightarrow> Inl TypeError
           | Some xs \<Rightarrow> Inr (join newline (texts xs))))"
  by (simp add: joined_last_def last_event_def get_parts_def iter_parts_def
      split: option.splits)

text \<open>The guard never fails: each operand is only evaluated where it is defined.\<close>

lemma guard_eq:
  "guard events = Inr (events \<noteq> [] \<and> truthy_list (content_parts (last events)))"
  by (simp add: guard_def last_event_def get_parts_def truthy_obj_def truthy_list_def
      content_parts_def split: option.splits)

text \<open>
  Every pass of the loop assigns the same string, so after at least one pass the
  variable holds it, and the log has one more line per event.
\<close>

lemma loop_fixed:
  "joined_last events = Inr s \<Longrightarrow> todo \<noteq> [] \<Longrightarrow>
   loop events todo st =
     Inr (st\<lparr>logged := logged st @ map (\<lambda>ev. (author ev, actions ev)) todo,
             response := s\<rparr>)"
proof (induction todo arbitrary: st)
  case Nil
  then show ?case by simp
next
  case (Cons ev todo)
  show ?case
  proof (cases "todo = []")
    case True
    with Cons.prems show ?thesis by (simp add: body_def)
  next
    case False
    with Cons show ?thesis by (simp add: body_def)
  qed
qed

lemma process_events_eq:
  "process_events events =
     Inr (if events \<noteq> [] \<and> truthy_list (content_parts (last events))
          then \<lparr>logged = map (\<lambda>ev. (author ev, actions ev)) events,
                response = join newline (texts (the (content_parts (last events))))\<rparr>
          else \<lparr>logged = [], response = []\<rparr>)"
proof (cases "events \<noteq> [] \<and> truthy_list (content_parts (last events))")
  case False
  then show ?thesis by (auto simp: process_events_def guard_eq Let_def)
next
  case True
  then obtain c xs where c: "content (last events) = Some c" and xs: "parts c = Some xs"
    by (auto simp: content_parts_def truthy_list_def split: option.splits)
  from True c xs have j: "joined_last events = Inr (join newline (texts xs))"
    by (simp add: joined_last_eq)
  from True have ne: "events \<noteq> []" by simp
  show ?thesis
    using True c xs loop_fixed [OF j ne]
    by (simp add: process_events_def guard_eq content_parts_def Let_def)
qed

lemma printed_eq:
  "printed events =
     Inr (if events \<noteq> [] \<and> truthy_list (content_parts (last events))
          then join newline (texts (the (content_parts (last events)))) else [])"
  by (simp add: printed_def process_events_eq)

subsection \<open>The reply comes from the last event\<close>

text \<open>
  Claim C1. For every non-empty list of events returned by one run call, the reply is
  obtained from the last event only: if the last event has one or more text parts, the
  reply is their texts joined with newline separators, and if it has none, the reply
  is the empty string. A text part is a part whose text is present and not empty
  (\<open>textual\<close>), which is the test the script applies to each part.
\<close>

theorem printed_last_event_texts:
  "events \<noteq> [] \<Longrightarrow>
   printed events =
     Inr (if text_parts (last events) = [] then []
          else join newline (map (\<lambda>p. the (part_text p)) (text_parts (last events))))"
  by (auto simp: printed_eq text_parts_def texts_filter truthy_list_def
      split: option.splits)

text \<open>
  On the run coordinator, then specialist: the specialist's two texts, one per line;
  its parts without text and with empty text leave no trace.
\<close>

theorem printed_last_event_texts_witness:
  "[transfer_event, support_event] \<noteq> [] \<and>
   printed [transfer_event, support_event] =
     Inr (''Reset it'' @ [CHR 0x0A] @ ''Then retry'')"
  using printed_last_event_texts [of "[transfer_event, support_event]"]
  by (simp add: text_parts_def content_parts_def textual_def support_event_def newline_def)

subsection \<open>The extraction never fails\<close>

text \<open>
  Claim C9. The response extraction is total: for every event list it produces a
  string and raises neither an indexing nor an attribute error. For the empty list,
  for a list whose last event has no content, and for a list whose last event's
  content has no parts (the list of parts is \<^verbatim>\<open>None\<close> or empty), the string is the
  empty string.
\<close>

theorem printed_total:
  "(\<exists>s. printed events = Inr s) \<and>
   printed ([] :: 'a event list) = Inr [] \<and>
   (events \<noteq> [] \<and> content (last events) = None \<longrightarrow> printed events = Inr []) \<and>
   (events \<noteq> [] \<and> content (last events) = Some c \<and> (parts c = None \<or> parts c = Some [])
      \<longrightarrow> printed events = Inr [])"
  by (auto simp: printed_eq content_parts_def truthy_list_def)

theorem printed_total_witness:
  "(\<exists>s. printed [support_event, bare_event] = Inr s) \<and>
   printed ([] :: unit event list) = Inr [] \<and>
   [support_event, bare_event] \<noteq> [] \<and>
   content (last [support_event, bare_event]) = None \<and>
   printed [support_event, bare_event] = Inr [] \<and>
   [support_event, hollow_event] \<noteq> [] \<and>
   content (last [support_event, hollow_event]) =
     Some \<lparr>role = Some ''model'', parts = None\<rparr> \<and>
   printed [support_event, hollow_event] = Inr []"
  using printed_total [of "[support_event, bare_event]"]
    printed_total [of "[support_event, hollow_event]"
      "\<lparr>role = Some ''model'', parts = None\<rparr>"]
  by (auto simp add: bare_event_def hollow_event_def)

subsection \<open>Only the last event matters\<close>

text \<open>
  Claim C10. The reply depends only on the last event: two non-empty event lists
  whose last events have equal content parts give the same response, however many
  events come before and whatever they hold. Parts whose text is empty or \<^verbatim>\<open>None\<close>
  are left out of the join: removing them from the last event changes nothing.
\<close>

theorem printed_only_last_event:
  "(es1 \<noteq> [] \<and> es2 \<noteq> [] \<and> content_parts (last es1) = content_parts (last es2)
      \<longrightarrow> printed es1 = printed es2) \<and>
   printed (es @ [e\<lparr>content := Some (c\<lparr>parts := Some ps\<rparr>)\<rparr>]) =
   printed (es @ [e\<lparr>content := Some (c\<lparr>parts := Some (filter textual ps)\<rparr>)\<rparr>])"
  by (auto simp: printed_eq content_parts_def truthy_list_def texts_filter)

theorem printed_only_last_event_witness:
  "[user_event, transfer_event, support_event] \<noteq> [] \<and> [support_event] \<noteq> [] \<and>
   content_parts (last [user_event, transfer_event, support_event]) =
     content_parts (last [support_event]) \<and>
   printed [user_event, transfer_event, support_event] = printed [support_event]"
  using printed_only_last_event [of "[user_event, transfer_event, support_event]"
      "[support_event]", THEN conjunct1]
  by simp

subsection \<open>Further properties of the script\<close>

text \<open>
  The log: when the guard holds, the loop logs one line per returned event, in the
  order of the list; when it does not, nothing is logged.
\<close>

theorem logged_one_line_per_event:
  "\<exists>st. process_events events = Inr st \<and>
     logged st =
       (if events \<noteq> [] \<and> truthy_list (content_parts (last events))
        then map (\<lambda>ev. (author ev, actions ev)) events else [])"
  by (simp add: process_events_eq)

text \<open>
  Text of earlier events is never reported: when the last event carries no text
  part, the response is empty, whatever the events before it say.
\<close>

theorem earlier_text_not_reported:
  "text_parts e = [] \<Longrightarrow> printed (es @ [e]) = Inr []"
  by (auto simp: printed_eq text_parts_def texts_filter truthy_list_def
      split: option.splits)

theorem earlier_text_not_reported_witness:
  "text_parts transfer_event = [] \<and> printed [support_event, transfer_event] = Inr []"
  using earlier_text_not_reported [of transfer_event "[support_event]"]
  by (simp add: text_parts_def content_parts_def textual_def transfer_event_def)

end
